theory Spec2Isabelle
  imports
    Main
    "HOL-Library.Word"
    "HOL-Library.Char_ord"
    "HOL-Library.List_Lexorder"
begin

unbundle bit_operations_syntax

section \<open>The geoip build step (main.go)\<close>

text \<open>
  The program decodes an upstream MaxMind trie into a map from country code to
  networks, replaces the networks of \<open>cn\<close> by those read from two text
  sources, re-encodes the map into two tries and writes one text file per
  country and format.

  Go strings are byte sequences: \<^typ>\<open>string\<close> (a list of 8-bit characters)
  with the byte-wise lexicographic order of \<open>Char_ord\<close> and \<open>List_Lexorder\<close>,
  which is the order \<open>sort.Strings\<close> uses.

  Functions of other packages (the Go standard library, maxminddb, mmdbwriter,
  sing-box's log) are not part of main.go. Where a result does not depend on
  what such a function computes, the function is a parameter of the model,
  named after it; the small ones that main.go's control flow depends on
  (\<open>IP.To4\<close>, \<open>strings.HasPrefix\<close>, \<open>sort.Strings\<close>) are written out.
\<close>

subsection \<open>Data\<close>

type_synonym byte = "8 word"

text \<open>\<open>net.IPNet\<close>: an address and a mask, both byte slices (4 or 16 bytes).\<close>

record IPNet =
  IP :: "byte list"
  Mask :: "byte list"

text \<open>\<open>map[string][]*net.IPNet\<close>, the country-range map.\<close>

type_synonym countryMap = "string \<rightharpoonup> IPNet list"

datatype error =
    CreateError string       \<comment> \<open>\<open>os.Create\<close> failed on this path\<close>
  | WriteError               \<comment> \<open>\<open>Tree.WriteTo\<close> failed\<close>
  | HttpError string         \<comment> \<open>\<open>http.Get\<close> failed on this URL\<close>
  | ScanError                \<comment> \<open>\<open>scanner.Err()\<close> after the scan of a body\<close>
  | InvalidDatabase          \<comment> \<open>\<open>maxminddb.FromBytes\<close> rejected the bytes\<close>
  | NetworkReadError         \<comment> \<open>\<open>networks.Network\<close> or \<open>networks.Err\<close> during the walk\<close>
  | NewError                 \<comment> \<open>\<open>mmdbwriter.New\<close> rejected the options\<close>
  | InsertError              \<comment> \<open>\<open>Tree.Insert\<close> rejected a network\<close>
  | NilMapPanic              \<comment> \<open>assignment to an entry of a nil map\<close>

datatype Level = Info | Warn

text \<open>A log call with its arguments, as passed to \<open>log.Info\<close> or \<open>log.Warn\<close>.\<close>

type_synonym LogEntry = "Level \<times> string list"

text \<open>
  What the program changes outside its own memory: the files (path to
  content) and the log. \<open>denied\<close> holds the paths at which the operating
  system refuses \<open>os.Create\<close> (missing directory, permissions).
\<close>

record World =
  files :: "string \<rightharpoonup> string"
  denied :: "string set"
  logs :: "LogEntry list"

definition log_Info :: "World \<Rightarrow> string list \<Rightarrow> World" where
  "log_Info w args = w\<lparr>logs := logs w @ [(Info, args)]\<rparr>"

definition log_Warn :: "World \<Rightarrow> string list \<Rightarrow> World" where
  "log_Warn w args = w\<lparr>logs := logs w @ [(Warn, args)]\<rparr>"

text \<open>\<open>os.Create\<close>: fails, or creates the file, truncating it when it exists.\<close>

definition os_Create :: "World \<Rightarrow> string \<Rightarrow> error + World" where
  "os_Create w path =
     (if path \<in> denied w then Inl (CreateError path)
      else Inr (w\<lparr>files := (files w)(path \<mapsto> [])\<rparr>))"

text \<open>Bytes reaching an open file are appended to its content.\<close>

definition file_Write :: "World \<Rightarrow> string \<Rightarrow> string \<Rightarrow> World" where
  "file_Write w path bytes =
     w\<lparr>files := (files w)(path \<mapsto> (case files w path of None \<Rightarrow> [] | Some old \<Rightarrow> old) @ bytes)\<rparr>"

subsection \<open>Standard-library functions that are written out\<close>

text \<open>
  \<open>IP.To4\<close> (package net): a 4-byte address is returned as it is, a 16-byte
  address with the prefix \<open>0:0:0:0:0:ffff\<close> gives its last four bytes, anything
  else gives nil.
\<close>

definition To4 :: "byte list \<Rightarrow> byte list option" where
  "To4 ip =
     (if length ip = 4 then Some ip
      else if length ip = 16 \<and> list_all (\<lambda>b. b = 0) (take 10 ip)
              \<and> ip ! 10 = 0xff \<and> ip ! 11 = 0xff
      then Some (drop 12 ip)
      else None)"

text \<open>\<open>strings.HasPrefix\<close>.\<close>

definition HasPrefix :: "string \<Rightarrow> string \<Rightarrow> bool" where
  "HasPrefix s p = (length p \<le> length s \<and> take (length p) s = p)"

subsection \<open>writeCIDRsToFile (lines 182-224)\<close>

text \<open>
  The \<open>bufio.Writer\<close> is its buffer; \<open>WriteString\<close> appends to it. The errors
  of \<open>WriteString\<close> and of the deferred \<open>Flush\<close> are ignored by the source, and
  the model takes the writes to the file to succeed.
\<close>

definition WriteString :: "string \<Rightarrow> string \<Rightarrow> string" where
  "WriteString buf s = buf @ s"

text \<open>The four loops of the \<open>switch\<close>; \<open>String\<close> is \<open>(*net.IPNet).String\<close>.\<close>

fun emit_txt :: "(IPNet \<Rightarrow> string) \<Rightarrow> IPNet list \<Rightarrow> string \<Rightarrow> string" where
  "emit_txt String [] buf = buf"
| "emit_txt String (cidr # cidrs) buf =
     emit_txt String cidrs (WriteString buf (String cidr @ ''\<newline>''))"

fun emit_list :: "(IPNet \<Rightarrow> string) \<Rightarrow> IPNet list \<Rightarrow> string \<Rightarrow> string" where
  "emit_list String [] buf = buf"
| "emit_list String (cidr # cidrs) buf =
     (if To4 (IP cidr) \<noteq> None
      then emit_list String cidrs (WriteString buf (''IP-CIDR,'' @ String cidr @ ''\<newline>''))
      else emit_list String cidrs (WriteString buf (''IP-CIDR6,'' @ String cidr @ ''\<newline>'')))"

fun emit_yaml :: "(IPNet \<Rightarrow> string) \<Rightarrow> IPNet list \<Rightarrow> string \<Rightarrow> string" where
  "emit_yaml String [] buf = buf"
| "emit_yaml String (cidr # cidrs) buf =
     emit_yaml String cidrs (WriteString buf (''  - '' @ String cidr @ ''\<newline>''))"

fun emit_snippet :: "(IPNet \<Rightarrow> string) \<Rightarrow> IPNet list \<Rightarrow> string \<Rightarrow> string" where
  "emit_snippet String [] buf = buf"
| "emit_snippet String (cidr # cidrs) buf =
     (if To4 (IP cidr) \<noteq> None
      then emit_snippet String cidrs (WriteString buf (''ip-cidr, '' @ String cidr @ ''\<newline>''))
      else emit_snippet String cidrs (WriteString buf (''ip6-cidr, '' @ String cidr @ ''\<newline>'')))"

text \<open>The \<open>switch format\<close>: a format matching no case writes nothing.\<close>

definition emit :: "(IPNet \<Rightarrow> string) \<Rightarrow> string \<Rightarrow> IPNet list \<Rightarrow> string \<Rightarrow> string" where
  "emit String format cidrs buf =
     (if format = ''txt'' then emit_txt String cidrs buf
      else if format = ''list'' then emit_list String cidrs buf
      else if format = ''yaml'' then emit_yaml String cidrs (WriteString buf ''payload:\<newline>'')
      else if format = ''snippet'' then emit_snippet String cidrs buf
      else buf)"

text \<open>
  \<open>AbsJoin outputDir fileName\<close> is \<open>filepath.Abs(filepath.Join(outputDir, fileName))\<close>,
  whose error the source drops. The function returns the error value (\<open>None\<close>
  is nil) and the world it leaves. The deferred calls run in reverse order:
  \<open>writer.Flush()\<close> moves the buffer to the file, then \<open>file.Close()\<close>.
\<close>

definition writeCIDRsToFile ::
  "(string \<Rightarrow> string \<Rightarrow> string) \<Rightarrow> (IPNet \<Rightarrow> string) \<Rightarrow> World \<Rightarrow>
   IPNet list \<Rightarrow> string \<Rightarrow> string \<Rightarrow> string \<Rightarrow> error option \<times> World" where
  "writeCIDRsToFile AbsJoin String w cidrs outputDir countryCode format =
     (let fileName = ''geoip-'' @ countryCode @ ''.'' @ format;
          filePath = AbsJoin outputDir fileName
      in case os_Create w filePath of
           Inl err \<Rightarrow> (Some err, w)
         | Inr w1 \<Rightarrow>
             (let writer = emit String format cidrs [];
                  w2 = log_Info w1 [''write '', filePath]
              in (None, file_Write w2 filePath writer)))"

subsection \<open>fetchChinaIPCIDR (lines 146-180)\<close>

text \<open>
  What the program sees of one HTTP response: the tokens that
  \<open>scanner.Scan()\<close> delivers until it returns false (the lines of the body,
  without their line ends), and the value of \<open>scanner.Err()\<close> after that.
\<close>

record Response =
  tokens :: "string list"
  scan_Err :: "error option"

text \<open>
  The inner loop over one body. \<open>TrimSpace\<close> is \<open>strings.TrimSpace\<close>;
  \<open>ParseCIDR\<close> is \<open>net.ParseCIDR\<close>, \<open>None\<close> when it returns an error and
  otherwise the network it returns.
\<close>

fun scan_lines ::
  "(string \<Rightarrow> string) \<Rightarrow> (string \<Rightarrow> IPNet option) \<Rightarrow> string list \<Rightarrow>
   IPNet list \<Rightarrow> World \<Rightarrow> IPNet list \<times> World" where
  "scan_lines TrimSpace ParseCIDR [] allCIDRs w = (allCIDRs, w)"
| "scan_lines TrimSpace ParseCIDR (text # rest) allCIDRs w =
     (let line = TrimSpace text
      in if line \<noteq> [] \<and> \<not> HasPrefix line ''#'' then
           (case ParseCIDR line of
              None \<Rightarrow>
                scan_lines TrimSpace ParseCIDR rest allCIDRs (log_Warn w [''Invalid CIDR:'', line])
            | Some ipNet \<Rightarrow>
                scan_lines TrimSpace ParseCIDR rest (allCIDRs @ [ipNet]) w)
         else scan_lines TrimSpace ParseCIDR rest allCIDRs w)"

text \<open>
  The outer loop over the URLs. \<open>Get url\<close> is the outcome of
  \<open>http.Get(url)\<close>: an error, or the response as the scanner delivers it.
  The first failure returns \<open>(nil, err)\<close>.
\<close>

fun fetch_urls ::
  "(string \<Rightarrow> error + Response) \<Rightarrow> (string \<Rightarrow> string) \<Rightarrow> (string \<Rightarrow> IPNet option) \<Rightarrow>
   string list \<Rightarrow> IPNet list \<Rightarrow> World \<Rightarrow> (error + IPNet list) \<times> World" where
  "fetch_urls Get TrimSpace ParseCIDR [] allCIDRs w = (Inr allCIDRs, w)"
| "fetch_urls Get TrimSpace ParseCIDR (url # rest) allCIDRs w =
     (case Get url of
        Inl err \<Rightarrow> (Inl err, w)
      | Inr resp \<Rightarrow>
          (case scan_lines TrimSpace ParseCIDR (tokens resp) allCIDRs w of
             (allCIDRs', w') \<Rightarrow>
               (case scan_Err resp of
                  Some err \<Rightarrow> (Inl err, w')
                | None \<Rightarrow> fetch_urls Get TrimSpace ParseCIDR rest allCIDRs' w')))"

definition url_chnroutes :: string where
  "url_chnroutes = ''https://raw.githubusercontent.com/misakaio/chnroutes2/master/chnroutes.txt''"

definition url_china6 :: string where
  "url_china6 =
     ''https://raw.githubusercontent.com/gaoyifan/china-operator-ip/ip-lists/china6.txt''"

definition urls :: "string list" where
  "urls = [url_chnroutes, url_china6]"

definition fetchChinaIPCIDR ::
  "(string \<Rightarrow> error + Response) \<Rightarrow> (string \<Rightarrow> string) \<Rightarrow> (string \<Rightarrow> IPNet option) \<Rightarrow>
   World \<Rightarrow> (error + IPNet list) \<times> World" where
  "fetchChinaIPCIDR Get TrimSpace ParseCIDR w = fetch_urls Get TrimSpace ParseCIDR urls [] w"

text \<open>
  Notions used to state the reader's properties: a source is available when
  it can be fetched and scanned to its end; its lines are the trimmed tokens
  that are neither blank nor comments; its networks are those of its lines
  that parse; its warnings are one per line that does not.
\<close>

definition available :: "(string \<Rightarrow> error + Response) \<Rightarrow> string \<Rightarrow> bool" where
  "available Get url = (case Get url of Inl err \<Rightarrow> False | Inr resp \<Rightarrow> scan_Err resp = None)"

definition source_lines :: "(string \<Rightarrow> error + Response) \<Rightarrow> (string \<Rightarrow> string) \<Rightarrow> string \<Rightarrow> string list" where
  "source_lines Get TrimSpace url =
     (case Get url of
        Inl err \<Rightarrow> []
      | Inr resp \<Rightarrow> filter (\<lambda>line. line \<noteq> [] \<and> \<not> HasPrefix line ''#'') (map TrimSpace (tokens resp)))"

definition source_networks ::
  "(string \<Rightarrow> error + Response) \<Rightarrow> (string \<Rightarrow> string) \<Rightarrow> (string \<Rightarrow> IPNet option) \<Rightarrow> string \<Rightarrow> IPNet list" where
  "source_networks Get TrimSpace ParseCIDR url = List.map_filter ParseCIDR (source_lines Get TrimSpace url)"

definition source_warnings ::
  "(string \<Rightarrow> error + Response) \<Rightarrow> (string \<Rightarrow> string) \<Rightarrow> (string \<Rightarrow> IPNet option) \<Rightarrow> string \<Rightarrow> LogEntry list" where
  "source_warnings Get TrimSpace ParseCIDR url =
     map (\<lambda>line. (Warn, [''Invalid CIDR:'', line]))
       (filter (\<lambda>line. ParseCIDR line = None) (source_lines Get TrimSpace url))"

subsection \<open>parse (lines 80-100)\<close>

text \<open>
  \<open>maxminddb.Metadata\<close>, the two fields the program reads. Go's \<open>uint\<close> is a
  64-bit word on the platforms the program is built for.
\<close>

record Metadata =
  IPVersion :: "64 word"
  RecordSize :: "64 word"

definition zero_Metadata :: Metadata where
  "zero_Metadata = \<lparr>IPVersion = 0, RecordSize = 0\<rparr>"

text \<open>
  One call of \<open>networks.Network(&country)\<close>: it returns a network and leaves
  a value in \<open>country.RegisteredCountry.IsoCode\<close> (the second argument of
  \<open>Network\<close>), or it returns an error.
\<close>

datatype network_read =
    Network IPNet string
  | NetworkFailure error

text \<open>
  What the program sees of an opened database: its metadata, the results of
  the calls of \<open>networks.Network\<close> for as long as \<open>networks.Next()\<close> returns
  true (canonical networks only, \<open>SkipAliasedNetworks\<close>), and the value of
  \<open>networks.Err()\<close> once \<open>Next\<close> has returned false.
\<close>

record Reader =
  db_Metadata :: Metadata
  db_networks :: "network_read list"
  db_Err :: "error option"

text \<open>
  The loop of \<open>parse\<close>. \<open>ToLower\<close> is \<open>strings.ToLower\<close>. Reading a
  missing key of a Go map gives the nil slice, to which \<open>append\<close> adds the
  network.
\<close>

fun walk :: "(string \<Rightarrow> string) \<Rightarrow> network_read list \<Rightarrow> countryMap \<Rightarrow> countryMap \<times> error option" where
  "walk ToLower [] countryMap = (countryMap, None)"
| "walk ToLower (NetworkFailure err # rest) countryMap = (countryMap, Some err)"
| "walk ToLower (Network ipNet isoCode # rest) countryMap =
     (let code = ToLower isoCode
      in walk ToLower rest
           (countryMap(code \<mapsto> (case countryMap code of None \<Rightarrow> [] | Some nets \<Rightarrow> nets) @ [ipNet])))"

text \<open>
  \<open>parse\<close> has named results and returns with a bare \<open>return\<close>: the caller
  receives the three results as they stand at that point. \<open>None\<close> in the
  second component is the nil map, in the third the nil error.
\<close>

definition parse ::
  "(byte list \<Rightarrow> error + Reader) \<Rightarrow> (string \<Rightarrow> string) \<Rightarrow> byte list \<Rightarrow>
   Metadata \<times> countryMap option \<times> error option" where
  "parse FromBytes ToLower binary =
     (case FromBytes binary of
        Inl err \<Rightarrow> (zero_Metadata, None, Some err)
      | Inr database \<Rightarrow>
          (case walk ToLower (db_networks database) Map.empty of
             (countryMap, Some err) \<Rightarrow> (db_Metadata database, Some countryMap, Some err)
           | (countryMap, None) \<Rightarrow> (db_Metadata database, Some countryMap, db_Err database)))"

subsection \<open>release, from the decoding to the override (lines 245-257)\<close>

text \<open>
  The part of \<open>release\<close> between the download and the encoders: it decodes,
  reads the replacement networks and assigns them to the key \<open>cn\<close>. The
  result is the error that \<open>release\<close> returns there, or the metadata and the
  map with which \<open>release\<close> goes on.
\<close>

definition release_override ::
  "(byte list \<Rightarrow> error + Reader) \<Rightarrow> (string \<Rightarrow> string) \<Rightarrow>
   (string \<Rightarrow> error + Response) \<Rightarrow> (string \<Rightarrow> string) \<Rightarrow> (string \<Rightarrow> IPNet option) \<Rightarrow>
   World \<Rightarrow> byte list \<Rightarrow> (error + Metadata \<times> countryMap) \<times> World" where
  "release_override FromBytes ToLower Get TrimSpace ParseCIDR w binary =
     (case parse FromBytes ToLower binary of
        (metadata, countryMap, Some err) \<Rightarrow> (Inl err, w)
      | (metadata, countryMap, None) \<Rightarrow>
          (case fetchChinaIPCIDR Get TrimSpace ParseCIDR w of
             (Inl err, w') \<Rightarrow> (Inl err, w')
           | (Inr chinaCIDRs, w') \<Rightarrow>
               (case countryMap of
                  None \<Rightarrow> (Inl NilMapPanic, w')
                | Some m \<Rightarrow> (Inr (metadata, m(''cn'' \<mapsto> chinaCIDRs)), w'))))"

text \<open>
  Notions used to state the decoder's properties: the networks read before
  the first failing read, that failure, and the map that groups a list of
  networks by lower-cased country attribute, keeping their order
  (\<open>extend_by_code\<close> is the same grouping added to a map that is already
  there).
\<close>

fun leaves :: "network_read list \<Rightarrow> (IPNet \<times> string) list" where
  "leaves [] = []"
| "leaves (NetworkFailure err # rest) = []"
| "leaves (Network ipNet isoCode # rest) = (ipNet, isoCode) # leaves rest"

fun first_failure :: "network_read list \<Rightarrow> error option" where
  "first_failure [] = None"
| "first_failure (NetworkFailure err # rest) = Some err"
| "first_failure (Network ipNet isoCode # rest) = first_failure rest"

definition group_by_code :: "(string \<Rightarrow> string) \<Rightarrow> (IPNet \<times> string) list \<Rightarrow> countryMap" where
  "group_by_code ToLower ls code =
     (let nets = map fst (filter (\<lambda>l. ToLower (snd l) = code) ls)
      in if nets = [] then None else Some nets)"

definition extend_by_code :: "(string \<Rightarrow> string) \<Rightarrow> (IPNet \<times> string) list \<Rightarrow> countryMap \<Rightarrow> countryMap" where
  "extend_by_code ToLower ls m code =
     (let nets = map fst (filter (\<lambda>l. ToLower (snd l) = code) ls)
      in if nets = [] then m code else Some ((case m code of None \<Rightarrow> [] | Some old \<Rightarrow> old) @ nets))"

subsection \<open>newWriter (lines 102-112)\<close>

text \<open>
  \<open>mmdbwriter.Options\<close>, the fields that \<open>newWriter\<close> sets. Go's \<open>int\<close> is
  modelled by its value.
\<close>

datatype Inserter = ReplaceWith

record Options =
  DatabaseType :: string
  Languages :: "string list"
  opt_IPVersion :: int
  opt_RecordSize :: int
  opt_Inserter :: Inserter
  DisableIPv4Aliasing :: bool
  IncludeReservedNetworks :: bool

text \<open>
  The conversion \<open>int(x)\<close> of a \<open>uint\<close>: the same 64 bits, read as two's
  complement.
\<close>

definition int_of_uint :: "64 word \<Rightarrow> int" where
  "int_of_uint x = sint x"

text \<open>The \<open>Options\<close> literal of lines 103-111.\<close>

definition newWriter_Options :: "Metadata \<Rightarrow> string list \<Rightarrow> Options" where
  "newWriter_Options metadata codes =
     \<lparr>DatabaseType = ''geoip'',
      Languages = codes,
      opt_IPVersion = int_of_uint (IPVersion metadata),
      opt_RecordSize = int_of_uint (RecordSize metadata),
      opt_Inserter = ReplaceWith,
      DisableIPv4Aliasing = True,
      IncludeReservedNetworks = True\<rparr>"

text \<open>
  A \<open>*mmdbwriter.Tree\<close> as far as the program determines it: the options it
  was made with and the \<open>Insert\<close> calls that succeeded on it, in order.
  \<open>New\<close> is \<open>mmdbwriter.New\<close>.
\<close>

record Tree =
  tree_Options :: Options
  inserted :: "(IPNet \<times> string) list"

definition newWriter :: "(Options \<Rightarrow> error + Tree) \<Rightarrow> Metadata \<Rightarrow> string list \<Rightarrow> error + Tree" where
  "newWriter New metadata codes = New (newWriter_Options metadata codes)"

subsection \<open>write (lines 114-144)\<close>

text \<open>
  A \<open>for ... range\<close> loop over a Go map visits every key once, in an order
  that the language does not specify and that the runtime varies from one
  loop to the next. The order of each such loop is an argument of the model;
  \<open>range_of m keys\<close> says that \<open>keys\<close> is an order in which a loop over
  \<open>m\<close> can run.
\<close>

definition range_of :: "('k \<rightharpoonup> 'v) \<Rightarrow> 'k list \<Rightarrow> bool" where
  "range_of m keys = (distinct keys \<and> set keys = dom m)"

text \<open>
  \<open>writer.Insert(item, mmdbtype.String(code))\<close>. \<open>rejects\<close> says for which
  networks the library returns an error.
\<close>

definition Insert :: "(Tree \<Rightarrow> IPNet \<Rightarrow> bool) \<Rightarrow> Tree \<Rightarrow> IPNet \<Rightarrow> string \<Rightarrow> error + Tree" where
  "Insert rejects writer network val =
     (if rejects writer network then Inl InsertError
      else Inr (writer\<lparr>inserted := inserted writer @ [(network, val)]\<rparr>))"

text \<open>The loop of lines 117-119, over the map, and the loop of lines 123-125.\<close>

fun collect_codes :: "string list \<Rightarrow> string list \<Rightarrow> string list" where
  "collect_codes [] codes = codes"
| "collect_codes (code # rest) codes = collect_codes rest (codes @ [code])"

fun mark_codes :: "string list \<Rightarrow> (string \<rightharpoonup> bool) \<Rightarrow> (string \<rightharpoonup> bool)" where
  "mark_codes [] codeMap = codeMap"
| "mark_codes (code # rest) codeMap = mark_codes rest (codeMap(code \<mapsto> True))"

text \<open>
  The loops of lines 126-136: the outer one runs over the map (in the order
  \<open>keys\<close>, with \<open>data\<close> the value of the key), the inner one over the
  slice. A key that \<open>codeMap\<close> lacks reads as false.
\<close>

fun insert_items ::
  "(Tree \<Rightarrow> IPNet \<Rightarrow> bool) \<Rightarrow> IPNet list \<Rightarrow> string \<Rightarrow> Tree \<Rightarrow> error option \<times> Tree" where
  "insert_items rejects [] code writer = (None, writer)"
| "insert_items rejects (item # rest) code writer =
     (case Insert rejects writer item code of
        Inl err \<Rightarrow> (Some err, writer)
      | Inr writer' \<Rightarrow> insert_items rejects rest code writer')"

fun insert_codes ::
  "(Tree \<Rightarrow> IPNet \<Rightarrow> bool) \<Rightarrow> (string \<rightharpoonup> bool) \<Rightarrow> countryMap \<Rightarrow> string list \<Rightarrow> Tree \<Rightarrow>
   error option \<times> Tree" where
  "insert_codes rejects codeMap dataMap [] writer = (None, writer)"
| "insert_codes rejects codeMap dataMap (code # rest) writer =
     (if \<not> (case codeMap code of None \<Rightarrow> False | Some b \<Rightarrow> b)
      then insert_codes rejects codeMap dataMap rest writer
      else (case insert_items rejects (case dataMap code of None \<Rightarrow> [] | Some data \<Rightarrow> data)
                   code writer of
              (Some err, writer') \<Rightarrow> (Some err, writer')
            | (None, writer') \<Rightarrow> insert_codes rejects codeMap dataMap rest writer'))"

text \<open>
  \<open>write\<close> (named \<open>write_mmdb\<close> here, \<open>write\<close> being a command of
  Isabelle). \<open>range1\<close> and \<open>range2\<close> are the orders of the two loops over
  \<open>dataMap\<close>; \<open>WriteTo\<close> is \<open>writer.WriteTo\<close>, giving the bytes written
  and the error. The result is the error, the tree behind the pointer
  \<open>writer\<close> and the world.
\<close>

definition write_mmdb ::
  "(Tree \<Rightarrow> IPNet \<Rightarrow> bool) \<Rightarrow> (Tree \<Rightarrow> string \<times> error option) \<Rightarrow> string list \<Rightarrow> string list \<Rightarrow>
   World \<Rightarrow> Tree \<Rightarrow> countryMap \<Rightarrow> string \<Rightarrow> string list \<Rightarrow> error option \<times> Tree \<times> World" where
  "write_mmdb rejects WriteTo range1 range2 w writer dataMap output codes =
     (let codes1 = (if length codes = 0 then collect_codes range1 [] else codes);
          codes2 = sort codes1;
          codeMap = mark_codes codes2 Map.empty
      in case insert_codes rejects codeMap dataMap range2 writer of
           (Some err, writer') \<Rightarrow> (Some err, writer', w)
         | (None, writer') \<Rightarrow>
             (case os_Create w output of
                Inl err \<Rightarrow> (Some err, writer', w)
              | Inr w1 \<Rightarrow>
                  (case WriteTo writer' of
                     (bytes, err) \<Rightarrow> (err, writer', file_Write w1 output bytes))))"

text \<open>
  What a tree built with \<open>inserter.ReplaceWith\<close> answers: an \<open>Insert\<close>
  replaces the value of every address of its network, so an address has the
  value of the last inserted network that covers it. A network covers an
  address of its own length whose masked bytes are those of the network.
\<close>

definition covers :: "IPNet \<Rightarrow> byte list \<Rightarrow> bool" where
  "covers n ip =
     (length ip = length (IP n) \<and> length (Mask n) = length (IP n)
      \<and> map2 (AND) (IP n) (Mask n) = map2 (AND) ip (Mask n))"

definition lookup :: "Tree \<Rightarrow> byte list \<Rightarrow> string option" where
  "lookup t ip =
     (case filter (\<lambda>entry. covers (fst entry) ip) (rev (inserted t)) of
        [] \<Rightarrow> None
      | entry # earlier \<Rightarrow> Some (snd entry))"

subsection \<open>Example data\<close>

text \<open>
  Concrete values on which the theorems below are instantiated: three IPv4
  networks, one IPv6 network, stand-ins for the library functions that the
  model takes as parameters, and an empty world.
\<close>

definition net_1_1_1_0 :: IPNet where
  "net_1_1_1_0 = \<lparr>IP = [1, 1, 1, 0], Mask = [255, 255, 255, 0]\<rparr>"

definition net_2_2_2_0 :: IPNet where
  "net_2_2_2_0 = \<lparr>IP = [2, 2, 2, 0], Mask = [255, 255, 254, 0]\<rparr>"

definition net_1_2_3_0 :: IPNet where
  "net_1_2_3_0 = \<lparr>IP = [1, 2, 3, 0], Mask = [255, 255, 255, 0]\<rparr>"

definition net_2408_8000 :: IPNet where
  "net_2408_8000 =
     \<lparr>IP = [0x24, 0x08, 0x80, 0, 0, 0, 0, 0, 0, 0, 0, 0, 0, 0, 0, 0],
      Mask = [0xff, 0xff, 0xf0, 0, 0, 0, 0, 0, 0, 0, 0, 0, 0, 0, 0, 0]\<rparr>"

text \<open>What \<open>String\<close> gives on the example networks.\<close>

definition example_String :: "IPNet \<Rightarrow> string" where
  "example_String n =
     (if n = net_1_1_1_0 then ''1.1.1.0/24''
      else if n = net_2_2_2_0 then ''2.2.2.0/23''
      else if n = net_1_2_3_0 then ''1.2.3.0/24''
      else if n = net_2408_8000 then ''2408:8000::/20''
      else ''<nil>'')"

definition example_AbsJoin :: "string \<Rightarrow> string \<Rightarrow> string" where
  "example_AbsJoin dir name = ''/build/'' @ dir @ ''/'' @ name"

definition world0 :: World where
  "world0 = \<lparr>files = Map.empty, denied = {}, logs = []\<rparr>"

text \<open>Stand-ins for \<open>strings.TrimSpace\<close> (ASCII white space only),
  \<open>net.ParseCIDR\<close> and \<open>http.Get\<close> on the example data.\<close>

definition is_space :: "char \<Rightarrow> bool" where
  "is_space c = (c \<in> set [CHR 0x09, CHR 0x0A, CHR 0x0B, CHR 0x0C, CHR 0x0D, CHR '' ''])"

definition example_TrimSpace :: "string \<Rightarrow> string" where
  "example_TrimSpace s = rev (dropWhile is_space (rev (dropWhile is_space s)))"

definition example_ParseCIDR :: "string \<Rightarrow> IPNet option" where
  "example_ParseCIDR s =
     (if s = ''1.1.1.0/24'' then Some net_1_1_1_0
      else if s = ''2.2.2.0/23'' then Some net_2_2_2_0
      else if s = ''1.2.3.0/24'' then Some net_1_2_3_0
      else if s = ''2408:8000::/20'' then Some net_2408_8000
      else None)"

definition example_Get :: "string \<Rightarrow> error + Response" where
  "example_Get url =
     (if url = url_chnroutes then
        Inr \<lparr>tokens = [''# chnroutes'', ''1.1.1.0/24'', '' 2.2.2.0/23 '', ''1.1.1.0/33'', []],
             scan_Err = None\<rparr>
      else if url = url_china6 then
        Inr \<lparr>tokens = [''2408:8000::/20'', ''1.1.1.0/24''], scan_Err = None\<rparr>
      else Inl (HttpError url))"

text \<open>A stand-in for \<open>strings.ToLower\<close> (ASCII letters only) and three
  databases: one that is read to its end, one whose second read fails, and
  one whose first network has no country code.\<close>

definition net_9_9_9_0 :: IPNet where
  "net_9_9_9_0 = \<lparr>IP = [9, 9, 9, 0], Mask = [255, 255, 255, 0]\<rparr>"

definition ascii_lower :: "char \<Rightarrow> char" where
  "ascii_lower c =
     (case map_of (zip ''ABCDEFGHIJKLMNOPQRSTUVWXYZ'' ''abcdefghijklmnopqrstuvwxyz'') c of
        None \<Rightarrow> c
      | Some l \<Rightarrow> l)"

definition example_ToLower :: "string \<Rightarrow> string" where
  "example_ToLower s = map ascii_lower s"

definition example_Metadata :: Metadata where
  "example_Metadata = \<lparr>IPVersion = 6, RecordSize = 24\<rparr>"

definition example_FromBytes :: "Reader \<Rightarrow> byte list \<Rightarrow> error + Reader" where
  "example_FromBytes database binary = (if binary = [] then Inl InvalidDatabase else Inr database)"

definition db_complete :: Reader where
  "db_complete =
     \<lparr>db_Metadata = example_Metadata,
      db_networks = [Network net_1_2_3_0 ''US'', Network net_9_9_9_0 ''CN''],
      db_Err = None\<rparr>"

definition db_failing :: Reader where
  "db_failing =
     \<lparr>db_Metadata = example_Metadata,
      db_networks = [Network net_1_2_3_0 ''US'', NetworkFailure NetworkReadError,
                     Network net_9_9_9_0 ''CN''],
      db_Err = None\<rparr>"


text \<open>A /16 around 1.1.1.0/24, an empty tree, a stand-in for \<open>WriteTo\<close>
  that writes what the tree answers for the addresses 1.1.1.1, 1.1.2.1 and
  1.2.3.1 (\<open>--\<close> for no answer), and two maps.\<close>

definition net_1_1_0_0 :: IPNet where
  "net_1_1_0_0 = \<lparr>IP = [1, 1, 0, 0], Mask = [255, 255, 0, 0]\<rparr>"

definition example_tree :: Tree where
  "example_tree = \<lparr>tree_Options = newWriter_Options example_Metadata [], inserted = []\<rparr>"

definition example_WriteTo :: "Tree \<Rightarrow> string \<times> error option" where
  "example_WriteTo t =
     (concat (map (\<lambda>ip. case lookup t ip of None \<Rightarrow> ''--'' | Some v \<Rightarrow> v)
                [[1, 1, 1, 1], [1, 1, 2, 1], [1, 2, 3, 1]]),
      None)"

definition three_codes :: countryMap where
  "three_codes = [''us'' \<mapsto> [net_1_2_3_0], ''cn'' \<mapsto> [net_1_1_1_0], ''jp'' \<mapsto> [net_2_2_2_0]]"

definition overlapping :: countryMap where
  "overlapping = [''cn'' \<mapsto> [net_1_1_1_0], ''us'' \<mapsto> [net_1_1_0_0]]"

section \<open>Properties\<close>

subsection \<open>Text emitters\<close>

text \<open>The line each format writes for one network.\<close>

lemma emit_txt_acc:
  "emit_txt String cidrs buf = buf @ concat (map (\<lambda>c. String c @ ''\<newline>'') cidrs)"
  by (induction cidrs arbitrary: buf) (simp_all add: WriteString_def)

lemma emit_list_acc:
  "emit_list String cidrs buf =
     buf @ concat (map (\<lambda>c. (if To4 (IP c) \<noteq> None then ''IP-CIDR,'' else ''IP-CIDR6,'')
                             @ String c @ ''\<newline>'') cidrs)"
  by (induction cidrs arbitrary: buf) (simp_all add: WriteString_def)

lemma emit_yaml_acc:
  "emit_yaml String cidrs buf = buf @ concat (map (\<lambda>c. ''  - '' @ String c @ ''\<newline>'') cidrs)"
  by (induction cidrs arbitrary: buf) (simp_all add: WriteString_def)

lemma emit_snippet_acc:
  "emit_snippet String cidrs buf =
     buf @ concat (map (\<lambda>c. (if To4 (IP c) \<noteq> None then ''ip-cidr, '' else ''ip6-cidr, '')
                             @ String c @ ''\<newline>'') cidrs)"
  by (induction cidrs arbitrary: buf) (simp_all add: WriteString_def)

lemma writeCIDRsToFile_created:
  assumes "AbsJoin outputDir (''geoip-'' @ countryCode @ ''.'' @ format) \<notin> denied w"
  shows "writeCIDRsToFile AbsJoin String w cidrs outputDir countryCode format =
           (None,
            (log_Info w [''write '', AbsJoin outputDir (''geoip-'' @ countryCode @ ''.'' @ format)])
              \<lparr>files := (files w)(AbsJoin outputDir (''geoip-'' @ countryCode @ ''.'' @ format)
                                   \<mapsto> emit String format cidrs [])\<rparr>)"
  using assms
  by (simp add: writeCIDRsToFile_def os_Create_def file_Write_def log_Info_def Let_def)

lemma writeCIDRsToFile_denied:
  assumes "AbsJoin outputDir (''geoip-'' @ countryCode @ ''.'' @ format) \<in> denied w"
  shows "writeCIDRsToFile AbsJoin String w cidrs outputDir countryCode format =
           (Some (CreateError (AbsJoin outputDir (''geoip-'' @ countryCode @ ''.'' @ format))), w)"
  using assms by (simp add: writeCIDRsToFile_def os_Create_def Let_def)

text \<open>
  C7. Provided the file can be created, each of the four formats returns nil
  and leaves in the file one line per network, in the order of the slice,
  none dropped and none added: \<open><cidr>\<close> for txt; \<open>IP-CIDR,<cidr>\<close> for
  an IPv4 network and \<open>IP-CIDR6,<cidr>\<close> for any other for list; the header
  \<open>payload:\<close> and then \<open>  - <cidr>\<close> for yaml; \<open>ip-cidr, <cidr>\<close> for an
  IPv4 network and \<open>ip6-cidr, <cidr>\<close> for any other for snippet. Here
  \<open><cidr>\<close> is \<open>cidr.String()\<close> and a network is IPv4 when \<open>cidr.IP.To4()\<close>
  is not nil. The content depends on the networks and the format only. For
  an empty slice the file holds the header alone (yaml) or nothing.
\<close>

theorem text_emitters_project:
  assumes "AbsJoin outputDir (''geoip-'' @ countryCode @ ''.'' @ format) \<notin> denied w"
    and "format \<in> {''txt'', ''list'', ''yaml'', ''snippet''}"
  shows "fst (writeCIDRsToFile AbsJoin String w cidrs outputDir countryCode format) = None
       \<and> files (snd (writeCIDRsToFile AbsJoin String w cidrs outputDir countryCode format))
            (AbsJoin outputDir (''geoip-'' @ countryCode @ ''.'' @ format))
          = Some (
              if format = ''txt'' then
                concat (map (\<lambda>c. String c @ ''\<newline>'') cidrs)
              else if format = ''list'' then
                concat (map (\<lambda>c. (if To4 (IP c) \<noteq> None then ''IP-CIDR,'' else ''IP-CIDR6,'')
                                   @ String c @ ''\<newline>'') cidrs)
              else if format = ''yaml'' then
                ''payload:\<newline>'' @ concat (map (\<lambda>c. ''  - '' @ String c @ ''\<newline>'') cidrs)
              else
                concat (map (\<lambda>c. (if To4 (IP c) \<noteq> None then ''ip-cidr, '' else ''ip6-cidr, '')
                                   @ String c @ ''\<newline>'') cidrs))
       \<and> (cidrs = [] \<longrightarrow>
            files (snd (writeCIDRsToFile AbsJoin String w cidrs outputDir countryCode format))
              (AbsJoin outputDir (''geoip-'' @ countryCode @ ''.'' @ format))
            = Some (if format = ''yaml'' then ''payload:\<newline>'' else []))"
proof -
  let ?p = "AbsJoin outputDir (''geoip-'' @ countryCode @ ''.'' @ format)"
  have r: "fst (writeCIDRsToFile AbsJoin String w cs outputDir countryCode format) = None"
    "files (snd (writeCIDRsToFile AbsJoin String w cs outputDir countryCode format)) ?p
       = Some (emit String format cs [])" for cs
    using assms(1)
      writeCIDRsToFile_created [where AbsJoin = AbsJoin and outputDir = outputDir
        and countryCode = countryCode and format = format and w = w
        and String = String and cidrs = cs]
    by simp_all
  from assms(2) consider "format = ''txt''" | "format = ''list''"
    | "format = ''yaml''" | "format = ''snippet''"
    by auto
  then have e: "emit String format cs [] =
      (if format = ''txt'' then
         concat (map (\<lambda>c. String c @ ''\<newline>'') cs)
       else if format = ''list'' then
         concat (map (\<lambda>c. (if To4 (IP c) \<noteq> None then ''IP-CIDR,'' else ''IP-CIDR6,'')
                            @ String c @ ''\<newline>'') cs)
       else if format = ''yaml'' then
         ''payload:\<newline>'' @ concat (map (\<lambda>c. ''  - '' @ String c @ ''\<newline>'') cs)
       else
         concat (map (\<lambda>c. (if To4 (IP c) \<noteq> None then ''ip-cidr, '' else ''ip6-cidr, '')
                            @ String c @ ''\<newline>'') cs))" for cs
  proof cases
    case 1
    then show ?thesis by (simp add: emit_def emit_txt_acc)
  next
    case 2
    then show ?thesis by (simp add: emit_def emit_list_acc)
  next
    case 3
    then show ?thesis by (simp add: emit_def emit_yaml_acc WriteString_def)
  next
    case 4
    then show ?thesis by (simp add: emit_def emit_snippet_acc)
  qed
  have empty: "emit String format [] [] = (if format = ''yaml'' then ''payload:\<newline>'' else [])"
    by (simp add: e [of "[]"])
  show ?thesis
    using r [of cidrs] r(2) [of "[]"] e [of cidrs] empty by auto
qed

theorem text_emitters_project_witness:
  "fst (writeCIDRsToFile example_AbsJoin example_String world0
          [net_1_1_1_0, net_2408_8000, net_2_2_2_0] ''rule-set'' ''cn'' ''list'') = None
   \<and> files (snd (writeCIDRsToFile example_AbsJoin example_String world0
          [net_1_1_1_0, net_2408_8000, net_2_2_2_0] ''rule-set'' ''cn'' ''list''))
        ''/build/rule-set/geoip-cn.list''
      = Some ''IP-CIDR,1.1.1.0/24\<newline>IP-CIDR6,2408:8000::/20\<newline>IP-CIDR,2.2.2.0/23\<newline>''"
proof -
  have created: "example_AbsJoin ''rule-set'' (''geoip-'' @ ''cn'' @ ''.'' @ ''list'') \<notin> denied world0"
    by (simp add: world0_def)
  have known: "''list'' \<in> {''txt'', ''list'', ''yaml'', ''snippet''}"
    by simp
  show ?thesis
    using created known
      text_emitters_project [where AbsJoin = example_AbsJoin and outputDir = "''rule-set''"
        and countryCode = "''cn''" and format = "''list''" and w = world0
        and String = example_String and cidrs = "[net_1_1_1_0, net_2408_8000, net_2_2_2_0]"]
    by (simp add: example_AbsJoin_def example_String_def To4_def
        net_1_1_1_0_def net_2408_8000_def net_2_2_2_0_def net_1_2_3_0_def)
qed

text \<open>
  C10. A format outside txt, list, yaml and snippet is not rejected: provided
  the file can be created, the call creates or truncates
  \<open>geoip-<code>.<format>\<close>, leaves it empty whatever the networks are, changes
  no other file and returns nil.
\<close>

theorem unknown_format_writes_empty_file:
  assumes "AbsJoin outputDir (''geoip-'' @ countryCode @ ''.'' @ format) \<notin> denied w"
    and "format \<notin> {''txt'', ''list'', ''yaml'', ''snippet''}"
  shows "fst (writeCIDRsToFile AbsJoin String w cidrs outputDir countryCode format) = None
       \<and> files (snd (writeCIDRsToFile AbsJoin String w cidrs outputDir countryCode format))
          = (files w)(AbsJoin outputDir (''geoip-'' @ countryCode @ ''.'' @ format) \<mapsto> [])"
proof -
  have "emit String format cidrs [] = []"
    using assms(2) by (simp add: emit_def)
  then show ?thesis
    using assms(1)
      writeCIDRsToFile_created [where AbsJoin = AbsJoin and outputDir = outputDir
        and countryCode = countryCode and format = format and w = w
        and String = String and cidrs = cidrs]
    by (simp add: log_Info_def)
qed

theorem unknown_format_writes_empty_file_witness:
  "fst (writeCIDRsToFile example_AbsJoin example_String
          (world0\<lparr>files := [''/build/rule-set/geoip-cn.json'' \<mapsto> ''old'']\<rparr>)
          [net_1_1_1_0, net_2_2_2_0] ''rule-set'' ''cn'' ''json'') = None
   \<and> files (snd (writeCIDRsToFile example_AbsJoin example_String
          (world0\<lparr>files := [''/build/rule-set/geoip-cn.json'' \<mapsto> ''old'']\<rparr>)
          [net_1_1_1_0, net_2_2_2_0] ''rule-set'' ''cn'' ''json''))
      = [''/build/rule-set/geoip-cn.json'' \<mapsto> []]"
proof -
  let ?w = "world0\<lparr>files := [''/build/rule-set/geoip-cn.json'' \<mapsto> ''old'']\<rparr>"
  have created: "example_AbsJoin ''rule-set'' (''geoip-'' @ ''cn'' @ ''.'' @ ''json'') \<notin> denied ?w"
    by (simp add: world0_def)
  have unknown: "''json'' \<notin> {''txt'', ''list'', ''yaml'', ''snippet''}"
    by simp
  show ?thesis
    using created unknown
      unknown_format_writes_empty_file [where AbsJoin = example_AbsJoin
        and outputDir = "''rule-set''" and countryCode = "''cn''" and format = "''json''"
        and w = ?w and String = example_String and cidrs = "[net_1_1_1_0, net_2_2_2_0]"]
    by (simp add: example_AbsJoin_def world0_def)
qed

subsection \<open>CIDR source reader\<close>

lemma scan_lines_eq:
  "scan_lines TrimSpace ParseCIDR toks allCIDRs w =
     (allCIDRs @ List.map_filter ParseCIDR
        (filter (\<lambda>line. line \<noteq> [] \<and> \<not> HasPrefix line ''#'') (map TrimSpace toks)),
      w\<lparr>logs := logs w @ map (\<lambda>line. (Warn, [''Invalid CIDR:'', line]))
        (filter (\<lambda>line. ParseCIDR line = None)
          (filter (\<lambda>line. line \<noteq> [] \<and> \<not> HasPrefix line ''#'') (map TrimSpace toks)))\<rparr>)"
  by (induction toks arbitrary: allCIDRs w)
     (auto simp: Let_def map_filter_simps log_Warn_def split: option.splits)

lemma map_filter_append: "List.map_filter f (xs @ ys) = List.map_filter f xs @ List.map_filter f ys"
  by (simp add: List.map_filter_def)

lemma map_filter_concat: "List.map_filter f (concat xss) = concat (map (List.map_filter f) xss)"
  by (induction xss) (simp_all add: map_filter_append map_filter_simps)

lemma fetch_urls_available:
  assumes "list_all (available Get) sources"
  shows "fetch_urls Get TrimSpace ParseCIDR sources allCIDRs w =
           (Inr (allCIDRs @ concat (map (source_networks Get TrimSpace ParseCIDR) sources)),
            w\<lparr>logs := logs w @ concat (map (source_warnings Get TrimSpace ParseCIDR) sources)\<rparr>)"
  using assms
proof (induction sources arbitrary: allCIDRs w)
  case Nil
  then show ?case by simp
next
  case (Cons url rest)
  from Cons.prems obtain resp where resp: "Get url = Inr resp" "scan_Err resp = None"
    by (auto simp: available_def split: sum.splits)
  from Cons.prems have rest: "list_all (available Get) rest" by simp
  show ?case
    using resp
    by (simp add: scan_lines_eq Cons.IH [OF rest] source_networks_def source_lines_def
        source_warnings_def)
qed






lemma example_urls_distinct: "url_china6 \<noteq> url_chnroutes"
  by (simp add: url_china6_def url_chnroutes_def)


lemma example_available: "list_all (available example_Get) urls"
  by (simp add: urls_def available_def example_Get_def)


lemma count_list_concat:
  "count_list (concat xss) x = sum_list (map (\<lambda>xs. count_list xs x) xss)"
  by (induction xss) simp_all

text \<open>
  C6. When all sources are available, the result is the networks of the
  first source, then those of the second, and so on, where the networks of a
  source are what the reader returns for that source alone. Nothing is
  removed: a network occurs in the result as often as it occurs in all
  sources together.
\<close>

theorem sources_concatenated:
  assumes "list_all (available Get) sources"
  shows "fst (fetch_urls Get TrimSpace ParseCIDR sources [] w) =
           Inr (concat (map (source_networks Get TrimSpace ParseCIDR) sources))
       \<and> list_all (\<lambda>url. fst (fetch_urls Get TrimSpace ParseCIDR [url] [] w) =
                          Inr (source_networks Get TrimSpace ParseCIDR url)) sources
       \<and> (\<forall>n. count_list (concat (map (source_networks Get TrimSpace ParseCIDR) sources)) n =
                sum_list (map (\<lambda>url. count_list (source_networks Get TrimSpace ParseCIDR url) n)
                  sources))"
proof -
  have one: "fst (fetch_urls Get TrimSpace ParseCIDR [url] [] w) =
      Inr (source_networks Get TrimSpace ParseCIDR url)" if "available Get url" for url
    using that fetch_urls_available [of Get "[url]" TrimSpace ParseCIDR "[]" w] by simp
  have each: "list_all (\<lambda>url. fst (fetch_urls Get TrimSpace ParseCIDR [url] [] w) =
      Inr (source_networks Get TrimSpace ParseCIDR url)) sources"
    using assms one by (simp add: list_all_iff)
  show ?thesis
    using fetch_urls_available [OF assms, of TrimSpace ParseCIDR "[]" w] each
    by (simp add: count_list_concat comp_def)
qed

theorem sources_concatenated_witness:
  "fst (fetchChinaIPCIDR example_Get example_TrimSpace example_ParseCIDR world0) =
     Inr ([net_1_1_1_0, net_2_2_2_0] @ [net_2408_8000, net_1_1_1_0])
   \<and> fst (fetch_urls example_Get example_TrimSpace example_ParseCIDR [url_chnroutes] [] world0) =
     Inr [net_1_1_1_0, net_2_2_2_0]
   \<and> fst (fetch_urls example_Get example_TrimSpace example_ParseCIDR [url_china6] [] world0) =
     Inr [net_2408_8000, net_1_1_1_0]
   \<and> count_list ([net_1_1_1_0, net_2_2_2_0] @ [net_2408_8000, net_1_1_1_0]) net_1_1_1_0 = 2"
proof -
  have nets: "source_networks example_Get example_TrimSpace example_ParseCIDR url_chnroutes =
      [net_1_1_1_0, net_2_2_2_0]"
    "source_networks example_Get example_TrimSpace example_ParseCIDR url_china6 =
      [net_2408_8000, net_1_1_1_0]"
    by (simp_all add: source_networks_def source_lines_def example_Get_def
        example_urls_distinct example_TrimSpace_def is_space_def HasPrefix_def example_ParseCIDR_def map_filter_simps)
  have distinct: "net_2408_8000 \<noteq> net_1_1_1_0" "net_2_2_2_0 \<noteq> net_1_1_1_0"
    by (simp_all add: net_1_1_1_0_def net_2_2_2_0_def net_2408_8000_def)
  have "fst (fetch_urls example_Get example_TrimSpace example_ParseCIDR urls [] world0) =
           Inr (concat (map (source_networks example_Get example_TrimSpace example_ParseCIDR) urls))
       \<and> list_all (\<lambda>url. fst (fetch_urls example_Get example_TrimSpace example_ParseCIDR [url] [] world0) =
                          Inr (source_networks example_Get example_TrimSpace example_ParseCIDR url)) urls
       \<and> (\<forall>n. count_list (concat (map (source_networks example_Get example_TrimSpace example_ParseCIDR) urls)) n =
                sum_list (map (\<lambda>url. count_list (source_networks example_Get example_TrimSpace example_ParseCIDR url) n)
                  urls))"
    by (rule sources_concatenated [OF example_available])
  then show ?thesis
    unfolding fetchChinaIPCIDR_def
    by (simp add: urls_def nets distinct del: fetch_urls.simps)
qed

subsection \<open>Decoder and override\<close>

lemma walk_eq:
  "walk ToLower reads m = (extend_by_code ToLower (leaves reads) m, first_failure reads)"
proof (induction reads arbitrary: m)
  case Nil
  then show ?case by (simp add: extend_by_code_def fun_eq_iff)
next
  case (Cons r reads)
  show ?case
  proof (cases r)
    case (Network ipNet isoCode)
    then show ?thesis
      by (auto simp: Cons.IH extend_by_code_def Let_def fun_eq_iff split: option.splits)
  next
    case (NetworkFailure err)
    then show ?thesis by (simp add: extend_by_code_def fun_eq_iff)
  qed
qed

lemma extend_empty: "extend_by_code ToLower ls Map.empty = group_by_code ToLower ls"
  by (simp add: extend_by_code_def group_by_code_def fun_eq_iff)

lemma parse_eq:
  "parse FromBytes ToLower binary =
     (case FromBytes binary of
        Inl err \<Rightarrow> (zero_Metadata, None, Some err)
      | Inr database \<Rightarrow>
          (db_Metadata database,
           Some (group_by_code ToLower (leaves (db_networks database))),
           (case first_failure (db_networks database) of
              Some err \<Rightarrow> Some err
            | None \<Rightarrow> db_Err database)))"
  by (simp add: parse_def walk_eq extend_empty split: sum.splits option.splits)

lemma example_lower [simp]:
  "example_ToLower ''US'' = ''us''" "example_ToLower ''CN'' = ''cn''" "example_ToLower [] = []"
  by (simp_all add: example_ToLower_def ascii_lower_def)

lemma leaves_complete:
  "first_failure reads = None \<Longrightarrow> map (\<lambda>l. Network (fst l) (snd l)) (leaves reads) = reads"
  by (induction reads rule: leaves.induct) simp_all

lemma release_override_parse_error:
  assumes "parse FromBytes ToLower binary = (metadata, countryMap, Some err)"
  shows "release_override FromBytes ToLower Get TrimSpace ParseCIDR w binary = (Inl err, w)"
  using assms by (simp add: release_override_def)

text \<open>
  C3, as the code has it. \<open>parse\<close> returns a nil error only when the bytes
  open as a database, every network read succeeds and the walk ends without
  error; the map it returns then groups every network read. When the bytes
  do not open, it returns the error and a nil map. When a read fails or the
  walk ends with an error, it returns the error together with the map of the
  networks read before the failure. \<open>release\<close> returns that error at once
  and does not use the map.
\<close>

theorem parse_complete_or_prefix:
  assumes "parse FromBytes ToLower binary = (metadata, countryMap, err)"
  shows "(err = None \<longrightarrow>
           (\<exists>database. FromBytes binary = Inr database
              \<and> db_networks database
                  = map (\<lambda>l. Network (fst l) (snd l)) (leaves (db_networks database))
              \<and> db_Err database = None
              \<and> countryMap = Some (group_by_code ToLower (leaves (db_networks database)))))
       \<and> (err \<noteq> None \<longrightarrow>
            (\<exists>e. FromBytes binary = Inl e \<and> err = Some e \<and> countryMap = None)
          \<or> (\<exists>database. FromBytes binary = Inr database
                \<and> err = (case first_failure (db_networks database) of
                           Some e \<Rightarrow> Some e | None \<Rightarrow> db_Err database)
                \<and> countryMap = Some (group_by_code ToLower (leaves (db_networks database)))))
       \<and> (err \<noteq> None \<longrightarrow>
            release_override FromBytes ToLower Get TrimSpace ParseCIDR w binary = (Inl (the err), w))"
proof (cases "FromBytes binary")
  case (Inl e)
  then have "countryMap = None" "err = Some e"
    using assms by (simp_all add: parse_eq)
  then show ?thesis
    using Inl release_override_parse_error [of FromBytes ToLower binary metadata countryMap e]
      assms
    by simp
next
  case (Inr database)
  then have m: "countryMap = Some (group_by_code ToLower (leaves (db_networks database)))"
    and e: "err = (case first_failure (db_networks database) of
                     Some e \<Rightarrow> Some e | None \<Rightarrow> db_Err database)"
    using assms by (simp_all add: parse_eq)
  have ok: "db_networks database
              = map (\<lambda>l. Network (fst l) (snd l)) (leaves (db_networks database))
            \<and> db_Err database = None" if "err = None"
    using that e leaves_complete [of "db_networks database"]
    by (auto split: option.splits)
  have rel: "release_override FromBytes ToLower Get TrimSpace ParseCIDR w binary
               = (Inl (the err), w)" if "err \<noteq> None"
    using that assms
      release_override_parse_error [of FromBytes ToLower binary metadata countryMap "the err"]
    by auto
  show ?thesis
    using Inr m e ok rel by auto
qed

lemma parse_db_failing:
  "parse (example_FromBytes db_failing) example_ToLower [1] =
     (example_Metadata, Some [''us'' \<mapsto> [net_1_2_3_0]], Some NetworkReadError)"
  by (simp add: parse_def example_FromBytes_def db_failing_def)

lemma parse_db_complete:
  "parse (example_FromBytes db_complete) example_ToLower [1] =
     (example_Metadata, Some [''us'' \<mapsto> [net_1_2_3_0], ''cn'' \<mapsto> [net_9_9_9_0]], None)"
  by (simp add: parse_def example_FromBytes_def db_complete_def)

theorem parse_complete_or_prefix_witness:
  "parse (example_FromBytes db_failing) example_ToLower [1] =
     (example_Metadata, Some [''us'' \<mapsto> [net_1_2_3_0]], Some NetworkReadError)
   \<and> example_FromBytes db_failing [1] = Inr db_failing
   \<and> first_failure (db_networks db_failing) = Some NetworkReadError
   \<and> leaves (db_networks db_failing) = [(net_1_2_3_0, ''US'')]
   \<and> release_override (example_FromBytes db_failing) example_ToLower
        example_Get example_TrimSpace example_ParseCIDR world0 [1] = (Inl NetworkReadError, world0)"
proof -
  have db: "example_FromBytes db_failing [1] = Inr db_failing"
    by (simp add: example_FromBytes_def)
  have walk: "first_failure (db_networks db_failing) = Some NetworkReadError"
    "leaves (db_networks db_failing) = [(net_1_2_3_0, ''US'')]"
    by (simp_all add: db_failing_def)
  have "release_override (example_FromBytes db_failing) example_ToLower
        example_Get example_TrimSpace example_ParseCIDR world0 [1] = (Inl NetworkReadError, world0)"
    using parse_complete_or_prefix [OF parse_db_failing,
        of example_Get example_TrimSpace example_ParseCIDR world0]
    by simp
  then show ?thesis
    using parse_db_failing db walk by simp
qed





text \<open>
  C4. When \<open>parse\<close> returns the map \<open>m\<close> and the reader returns the networks
  \<open>R\<close>, \<open>release\<close> goes on with a map whose entry for \<open>cn\<close> is exactly
  \<open>R\<close> and whose other entries are those of \<open>m\<close>.
\<close>

theorem override_replaces_cn:
  assumes "parse FromBytes ToLower binary = (metadata, Some m, None)"
    and "fetchChinaIPCIDR Get TrimSpace ParseCIDR w = (Inr R, w')"
    and "release_override FromBytes ToLower Get TrimSpace ParseCIDR w binary = (result, w'')"
  shows "\<exists>m'. result = Inr (metadata, m') \<and> m' ''cn'' = Some R
            \<and> (\<forall>code. code \<noteq> ''cn'' \<longrightarrow> m' code = m code)"
  using assms by (auto simp: release_override_def)

lemma example_fetch:
  "fetchChinaIPCIDR example_Get example_TrimSpace example_ParseCIDR world0 =
     (Inr [net_1_1_1_0, net_2_2_2_0, net_2408_8000, net_1_1_1_0],
      world0\<lparr>logs := [(Warn, [''Invalid CIDR:'', ''1.1.1.0/33''])]\<rparr>)"
  by (simp add: fetchChinaIPCIDR_def urls_def example_Get_def example_urls_distinct
      example_TrimSpace_def is_space_def HasPrefix_def example_ParseCIDR_def log_Warn_def
      world0_def)

theorem override_replaces_cn_witness:
  "(case fst (release_override (example_FromBytes db_complete) example_ToLower
                example_Get example_TrimSpace example_ParseCIDR world0 [1]) of
      Inl err \<Rightarrow> False
    | Inr (metadata, m') \<Rightarrow>
        m' ''cn'' = Some [net_1_1_1_0, net_2_2_2_0, net_2408_8000, net_1_1_1_0]
        \<and> m' ''us'' = Some [net_1_2_3_0] \<and> m' ''jp'' = None)"
proof -
  obtain result w'' where r: "release_override (example_FromBytes db_complete) example_ToLower
                example_Get example_TrimSpace example_ParseCIDR world0 [1] = (result, w'')"
    by (cases "release_override (example_FromBytes db_complete) example_ToLower
                example_Get example_TrimSpace example_ParseCIDR world0 [1]")
  from override_replaces_cn [OF parse_db_complete example_fetch r]
  obtain m' where "result = Inr (example_Metadata, m')"
    "m' ''cn'' = Some [net_1_1_1_0, net_2_2_2_0, net_2408_8000, net_1_1_1_0]"
    "\<forall>code. code \<noteq> ''cn'' \<longrightarrow> m' code = [''us'' \<mapsto> [net_1_2_3_0], ''cn'' \<mapsto> [net_9_9_9_0]] code"
    by blast
  then show ?thesis
    using r by simp
qed

text \<open>
  C3 as stated fails: when the second read fails, \<open>parse\<close> returns the error
  together with a map that holds the first network.
\<close>

theorem parse_partial_map_counterexample:
  "fst (snd (parse (example_FromBytes db_failing) example_ToLower [1])) =
     Some [''us'' \<mapsto> [net_1_2_3_0]]
   \<and> snd (snd (parse (example_FromBytes db_failing) example_ToLower [1])) =
     Some NetworkReadError"
  by (simp add: parse_db_failing)

subsection \<open>Encoder\<close>

lemma int_of_uint_bits: "word_of_int (int_of_uint x) = x"
  by (simp add: int_of_uint_def)

lemma int_of_uint_value:
  assumes "uint x < 2 ^ 63"
  shows "int_of_uint x = uint x"
proof -
  have "- (2 ^ 63) \<le> uint x"
    using uint_ge_0 [of x] by (rule order_trans [rotated]) simp
  then have "signed_take_bit 63 (uint x) = uint x"
    using assms by (intro signed_take_bit_int_eq_self) simp_all
  then show ?thesis
    by (simp add: int_of_uint_def sint_uint)
qed

text \<open>
  C8. The metadata that \<open>parse\<close> returns is the metadata of the decoded
  database, and \<open>newWriter\<close> passes to \<open>mmdbwriter.New\<close> options whose IP
  version and record size are that metadata's: the same 64 bits, and the
  same number whenever the value is below \<open>2^63\<close>.
\<close>

theorem metadata_carried_through:
  assumes "FromBytes binary = Inr database"
    and "parse FromBytes ToLower binary = (metadata, countryMap, err)"
  shows "newWriter New metadata codes = New (newWriter_Options metadata codes)
       \<and> word_of_int (opt_IPVersion (newWriter_Options metadata codes))
           = IPVersion (db_Metadata database)
       \<and> word_of_int (opt_RecordSize (newWriter_Options metadata codes))
           = RecordSize (db_Metadata database)
       \<and> (uint (IPVersion (db_Metadata database)) < 2 ^ 63 \<longrightarrow>
            opt_IPVersion (newWriter_Options metadata codes)
              = uint (IPVersion (db_Metadata database)))
       \<and> (uint (RecordSize (db_Metadata database)) < 2 ^ 63 \<longrightarrow>
            opt_RecordSize (newWriter_Options metadata codes)
              = uint (RecordSize (db_Metadata database)))"
proof -
  have md: "metadata = db_Metadata database"
    using assms by (simp add: parse_eq)
  show ?thesis
    by (simp add: md newWriter_def newWriter_Options_def int_of_uint_bits int_of_uint_value)
qed

theorem metadata_carried_through_witness:
  "opt_IPVersion (newWriter_Options example_Metadata [''cn'']) = 6
   \<and> opt_RecordSize (newWriter_Options example_Metadata [''cn'']) = 24
   \<and> newWriter (\<lambda>opts. Inr \<lparr>tree_Options = opts, inserted = []\<rparr>) example_Metadata [''cn'']
      = Inr \<lparr>tree_Options = newWriter_Options example_Metadata [''cn''], inserted = []\<rparr>"
proof -
  have db: "example_FromBytes db_complete [1] = Inr db_complete"
    by (simp add: example_FromBytes_def)
  have md: "db_Metadata db_complete = example_Metadata"
    by (simp add: db_complete_def)
  have small: "uint (IPVersion example_Metadata) = 6" "uint (RecordSize example_Metadata) = 24"
    by (simp_all add: example_Metadata_def)
  show ?thesis
    using metadata_carried_through [OF db parse_db_complete,
        of "\<lambda>opts. Inr \<lparr>tree_Options = opts, inserted = []\<rparr>" "[''cn'']"]
    unfolding md
    by (simp add: small)
qed

lemma collect_codes_eq: "collect_codes keys codes = codes @ keys"
  by (induction keys arbitrary: codes) simp_all

lemma mark_codes_marked:
  "(case mark_codes codes codeMap code of None \<Rightarrow> False | Some b \<Rightarrow> b) =
     (code \<in> set codes \<or> (case codeMap code of None \<Rightarrow> False | Some b \<Rightarrow> b))"
  by (induction codes arbitrary: codeMap) auto

lemma insert_items_accepted:
  "insert_items (\<lambda>t n. False) items code writer =
     (None, writer\<lparr>inserted := inserted writer @ map (\<lambda>item. (item, code)) items\<rparr>)"
  by (induction items arbitrary: writer) (simp_all add: Insert_def)

lemma insert_codes_accepted:
  "insert_codes (\<lambda>t n. False) codeMap dataMap keys writer =
     (None, writer\<lparr>inserted := inserted writer @
        concat (map (\<lambda>code. map (\<lambda>item. (item, code))
                               (case dataMap code of None \<Rightarrow> [] | Some data \<Rightarrow> data))
                 (filter (\<lambda>code. case codeMap code of None \<Rightarrow> False | Some b \<Rightarrow> b) keys))\<rparr>)"
  by (induction keys arbitrary: writer) (simp_all add: insert_items_accepted)

lemma write_mmdb_inserted:
  "inserted (fst (snd (write_mmdb (\<lambda>t n. False) WriteTo range1 range2 w writer dataMap output codes))) =
     inserted writer @
       concat (map (\<lambda>code. map (\<lambda>item. (item, code))
                              (case dataMap code of None \<Rightarrow> [] | Some data \<Rightarrow> data))
                (filter (\<lambda>code. code \<in> set (if codes = [] then range1 else codes)) range2))"
proof -
  define codeMap where
    "codeMap = mark_codes (sort (if length codes = 0 then collect_codes range1 [] else codes)) Map.empty"
  have marked: "(case codeMap code of None \<Rightarrow> False | Some b \<Rightarrow> b) =
      (code \<in> set (if codes = [] then range1 else codes))" for code
    by (simp add: codeMap_def mark_codes_marked collect_codes_eq)
  have ins: "insert_codes (\<lambda>t n. False) codeMap dataMap range2 writer =
      (None, writer\<lparr>inserted := inserted writer @
         concat (map (\<lambda>code. map (\<lambda>item. (item, code))
                                (case dataMap code of None \<Rightarrow> [] | Some data \<Rightarrow> data))
                  (filter (\<lambda>code. code \<in> set (if codes = [] then range1 else codes)) range2))\<rparr>)"
    by (simp add: insert_codes_accepted marked)
  show ?thesis
    unfolding write_mmdb_def Let_def codeMap_def [symmetric]
    by (simp add: ins split: sum.splits prod.splits)
qed

lemma filter_eq_distinct:
  "distinct xs \<Longrightarrow> filter (\<lambda>x. x \<in> set [c]) xs = (if c \<in> set xs then [c] else [])"
  by (induction xs) auto

text \<open>With a filter of one code, the insertions do not depend on the map order.\<close>

lemma write_mmdb_single_code:
  assumes "range_of dataMap range2" and "range_of dataMap range2'"
  shows "inserted (fst (snd (write_mmdb (\<lambda>t n. False) WriteTo range1 range2 w writer dataMap
                               output [code]))) =
         inserted (fst (snd (write_mmdb (\<lambda>t n. False) WriteTo range1' range2' w writer dataMap
                               output [code])))"
proof -
  have "filter (\<lambda>x. x \<in> set [code]) range2 = filter (\<lambda>x. x \<in> set [code]) range2'"
    using assms by (simp only: filter_eq_distinct range_of_def)
  then show ?thesis
    by (simp add: write_mmdb_inserted)
qed

text \<open>
  C1 on the code. When nothing is rejected, the networks are inserted in the
  order in which the loop of line 126 visits the map; the sorted \<open>codes\<close>
  only decide which keys are kept (\<open>write_mmdb_inserted\<close>). For the codes
  us, cn, jp and a loop that visits them in this order, the networks of us
  are inserted first, although the sorted codes are cn, jp, us.
\<close>

theorem insertion_order_is_map_order:
  "range_of three_codes [''us'', ''cn'', ''jp'']
   \<and> sort [''us'', ''cn'', ''jp''] = [''cn'', ''jp'', ''us'']
   \<and> inserted (fst (snd (write_mmdb (\<lambda>t n. False) example_WriteTo
           [''us'', ''cn'', ''jp''] [''us'', ''cn'', ''jp''] world0 example_tree three_codes
           ''geoip.db'' []))) =
       [(net_1_2_3_0, ''us''), (net_1_1_1_0, ''cn''), (net_2_2_2_0, ''jp'')]"
proof -
  have "range_of three_codes [''us'', ''cn'', ''jp'']"
    by (auto simp: range_of_def three_codes_def)
  moreover have "sort [''us'', ''cn'', ''jp''] = [''cn'', ''jp'', ''us'']"
    by simp
  moreover have "inserted (fst (snd (write_mmdb (\<lambda>t n. False) example_WriteTo
           [''us'', ''cn'', ''jp''] [''us'', ''cn'', ''jp''] world0 example_tree three_codes
           ''geoip.db'' []))) =
       [(net_1_2_3_0, ''us''), (net_1_1_1_0, ''cn''), (net_2_2_2_0, ''jp'')]"
    by (simp add: write_mmdb_def Insert_def three_codes_def os_Create_def world0_def
        example_WriteTo_def example_tree_def)
  ultimately show ?thesis by simp
qed

text \<open>
  C2 on the code. Two runs of \<open>write\<close> on the same tree, map and filter,
  whose loops visit the map in different orders: 1.1.1.0/24 belongs to cn and
  the enclosing 1.1.0.0/16 to us, and the address 1.1.1.1 ends up with us in
  one run and with cn in the other. A \<open>WriteTo\<close> that writes what the tree
  answers writes different bytes in the two runs.
\<close>

theorem overlap_depends_on_map_order:
  "range_of overlapping [''cn'', ''us''] \<and> range_of overlapping [''us'', ''cn'']
   \<and> lookup (fst (snd (write_mmdb (\<lambda>t n. False) example_WriteTo
           [''cn'', ''us''] [''cn'', ''us''] world0 example_tree overlapping
           ''geoip.db'' []))) [1, 1, 1, 1] = Some ''us''
   \<and> lookup (fst (snd (write_mmdb (\<lambda>t n. False) example_WriteTo
           [''cn'', ''us''] [''us'', ''cn''] world0 example_tree overlapping
           ''geoip.db'' []))) [1, 1, 1, 1] = Some ''cn''
   \<and> files (snd (snd (write_mmdb (\<lambda>t n. False) example_WriteTo
           [''cn'', ''us''] [''cn'', ''us''] world0 example_tree overlapping
           ''geoip.db'' []))) ''geoip.db'' = Some ''usus--''
   \<and> files (snd (snd (write_mmdb (\<lambda>t n. False) example_WriteTo
           [''cn'', ''us''] [''us'', ''cn''] world0 example_tree overlapping
           ''geoip.db'' []))) ''geoip.db'' = Some ''cnus--''"
proof -
  have "range_of overlapping [''cn'', ''us'']" "range_of overlapping [''us'', ''cn'']"
    by (auto simp: range_of_def overlapping_def)
  moreover have "lookup (fst (snd (write_mmdb (\<lambda>t n. False) example_WriteTo
           [''cn'', ''us''] [''cn'', ''us''] world0 example_tree overlapping
           ''geoip.db'' []))) [1, 1, 1, 1] = Some ''us''"
    "files (snd (snd (write_mmdb (\<lambda>t n. False) example_WriteTo
           [''cn'', ''us''] [''cn'', ''us''] world0 example_tree overlapping
           ''geoip.db'' []))) ''geoip.db'' = Some ''usus--''"
    by (simp_all add: write_mmdb_def Insert_def overlapping_def os_Create_def file_Write_def
        world0_def example_WriteTo_def example_tree_def lookup_def covers_def
        net_1_1_1_0_def net_1_1_0_0_def)
  moreover have "lookup (fst (snd (write_mmdb (\<lambda>t n. False) example_WriteTo
           [''cn'', ''us''] [''us'', ''cn''] world0 example_tree overlapping
           ''geoip.db'' []))) [1, 1, 1, 1] = Some ''cn''"
    "files (snd (snd (write_mmdb (\<lambda>t n. False) example_WriteTo
           [''cn'', ''us''] [''us'', ''cn''] world0 example_tree overlapping
           ''geoip.db'' []))) ''geoip.db'' = Some ''cnus--''"
    by (simp_all add: write_mmdb_def Insert_def overlapping_def os_Create_def file_Write_def
        world0_def example_WriteTo_def example_tree_def lookup_def covers_def
        net_1_1_1_0_def net_1_1_0_0_def)
  ultimately show ?thesis by simp
qed

end
